theory Spec2Isabelle
  imports Main "HOL-Library.Sublist"
begin

section \<open>The Gruyere Template Language (gtl.py)\<close>

text \<open>
  A shallow embedding of \<^verbatim>\<open>src/gtl.py\<close>. Python strings are modelled as
  \<^typ>\<open>string\<close>, one \<^typ>\<open>char\<close> per code point (ASCII text), and numbers as
  integers. Python exceptions are values of the type \<open>error\<close>; the calls of
  \<^verbatim>\<open>_Log\<close> and the opening and closing of resource handles are recorded, in order,
  in a list of events that a computation returns beside its outcome. Source names that
  start with an underscore are written without it (\<^verbatim>\<open>_ExpandBlocks\<close> is
  \<open>ExpandBlocks\<close>). A template is a string, on which the \<^verbatim>\<open>str(template)\<close> of
  \<^verbatim>\<open>ExpandTemplate\<close> is the identity.
\<close>

subsection \<open>Values, exceptions and effects\<close>

text \<open>
  The values a template is expanded against: \<^verbatim>\<open>None\<close>, booleans, integers,
  strings, dicts with string keys (in insertion order) and lists.
\<close>

datatype pyval =
    VNone
  | VBool bool
  | VInt int
  | VStr string
  | VDict "(string \<times> pyval) list"
  | VList "pyval list"

datatype error =
    ValueError
  | NameError
  | IndexError
  | AttributeError
  | KeyError
  | RecursionError

datatype event = Log string | Opened string | Closed string

type_synonym 'a result = "event list \<times> (error + 'a)"

definition ret :: "'a \<Rightarrow> 'a result" where
  "ret x = ([], Inr x)"

definition raise :: "error \<Rightarrow> 'a result" where
  "raise e = ([], Inl e)"

definition emit :: "event list \<Rightarrow> unit result" where
  "emit es = (es, Inr ())"

text \<open>
  Sequencing: the events of the first computation come first; an exception of the first
  computation ends the whole, keeping the events emitted before it.
\<close>

definition bind :: "'a result \<Rightarrow> ('a \<Rightarrow> 'b result) \<Rightarrow> 'b result" where
  "bind m f =
     (case m of
        (es, Inl e) \<Rightarrow> (es, Inl e)
      | (es, Inr x) \<Rightarrow> (case f x of (es', r) \<Rightarrow> (es @ es', r)))"

fun foldM :: "('b \<Rightarrow> 'a \<Rightarrow> 'b result) \<Rightarrow> 'a list \<Rightarrow> 'b \<Rightarrow> 'b result" where
  "foldM f [] a = ret a"
| "foldM f (x # xs) a = bind (f a x) (foldM f xs)"

fun mapM :: "('a \<Rightarrow> 'b result) \<Rightarrow> 'a list \<Rightarrow> 'b list result" where
  "mapM f [] = ret []"
| "mapM f (x # xs) = bind (f x) (\<lambda>y. bind (mapM f xs) (\<lambda>ys. ret (y # ys)))"

subsection \<open>Python built-ins\<close>

text \<open>Truth value testing (\<^verbatim>\<open>if x:\<close>, \<^verbatim>\<open>not x\<close>).\<close>

fun truthy :: "pyval \<Rightarrow> bool" where
  "truthy VNone = False"
| "truthy (VBool b) = b"
| "truthy (VInt n) = (n \<noteq> 0)"
| "truthy (VStr s) = (s \<noteq> [])"
| "truthy (VDict kvs) = (kvs \<noteq> [])"
| "truthy (VList xs) = (xs \<noteq> [])"

text \<open>
  \<^verbatim>\<open>isinstance(x, collections.Mapping)\<close> and \<^verbatim>\<open>isinstance(x, collections.Sequence)\<close>:
  a Python \<^verbatim>\<open>str\<close> is a Sequence (of its one-character strings).
\<close>

fun is_Mapping :: "pyval \<Rightarrow> bool" where
  "is_Mapping (VDict kvs) = True"
| "is_Mapping v = False"

fun is_Sequence :: "pyval \<Rightarrow> bool" where
  "is_Sequence (VList xs) = True"
| "is_Sequence (VStr s) = True"
| "is_Sequence v = False"

text \<open>\<^verbatim>\<open>x[0]\<close> on a sequence: IndexError when it is empty.\<close>

fun seq_first :: "pyval \<Rightarrow> pyval result" where
  "seq_first (VList (x # xs)) = ret x"
| "seq_first (VStr (c # cs)) = ret (VStr [c])"
| "seq_first v = raise IndexError"

text \<open>\<^verbatim>\<open>d[k]\<close> on a dict: KeyError when the key is absent.\<close>

definition dict_getitem :: "(string \<times> pyval) list \<Rightarrow> string \<Rightarrow> pyval result" where
  "dict_getitem kvs k = (case map_of kvs k of None \<Rightarrow> raise KeyError | Some v \<Rightarrow> ret v)"

text \<open>\<^verbatim>\<open>xs[i]\<close> on a list, for an index that is not negative.\<close>

definition list_getitem :: "'a list \<Rightarrow> nat \<Rightarrow> 'a result" where
  "list_getitem xs i = (if i < length xs then ret (xs ! i) else raise IndexError)"

text \<open>Slices \<^verbatim>\<open>s[i:j]\<close>, \<^verbatim>\<open>s[:j]\<close> and \<^verbatim>\<open>s[i:]\<close>; a negative bound counts from the end.\<close>

definition clamp_index :: "int \<Rightarrow> nat \<Rightarrow> nat" where
  "clamp_index i n = (if i < 0 then nat (max 0 (i + int n)) else min (nat i) n)"

definition py_slice :: "'a list \<Rightarrow> int \<Rightarrow> int \<Rightarrow> 'a list" where
  "py_slice s i j =
     (let a = clamp_index i (length s); b = clamp_index j (length s)
      in take (b - a) (drop a s))"

definition slice_to :: "'a list \<Rightarrow> int \<Rightarrow> 'a list" where
  "slice_to s j = take (clamp_index j (length s)) s"

definition slice_from :: "'a list \<Rightarrow> int \<Rightarrow> 'a list" where
  "slice_from s i = drop (clamp_index i (length s)) s"

text \<open>
  \<^verbatim>\<open>s.find(sub, start)\<close>: the lowest index at or after \<open>start\<close> where \<open>sub\<close> occurs,
  or \<open>-1\<close>. \<open>find_from sub s k\<close> searches the suffix \<open>s\<close> that starts at index \<open>k\<close>.
\<close>

primrec find_from :: "'a list \<Rightarrow> 'a list \<Rightarrow> nat \<Rightarrow> int" where
  "find_from sub [] k = (if sub = [] then int k else - 1)"
| "find_from sub (c # cs) k =
     (if prefix sub (c # cs) then int k else find_from sub cs (Suc k))"

definition py_find :: "'a list \<Rightarrow> 'a list \<Rightarrow> int \<Rightarrow> int" where
  "py_find s sub start =
     (let n = int (length s);
          a = (if start < 0 then max 0 (start + n) else start)
      in if a > n then - 1 else find_from sub (drop (nat a) s) (nat a))"

definition startswith :: "'a list \<Rightarrow> 'a list \<Rightarrow> bool" where
  "startswith s p = prefix p s"

text \<open>\<^verbatim>\<open>s.split(sep)\<close> for a one-character separator: never an empty list.\<close>

fun py_split :: "char \<Rightarrow> string \<Rightarrow> string list" where
  "py_split sep [] = [[]]"
| "py_split sep (c # cs) =
     (if c = sep then [] # py_split sep cs
      else (case py_split sep cs of
              [] \<Rightarrow> [[c]]
            | w # ws \<Rightarrow> (c # w) # ws))"

text \<open>\<^verbatim>\<open>s.split(sep, 1)\<close>: at most one split, at the first separator.\<close>

definition py_split1 :: "char \<Rightarrow> string \<Rightarrow> string list" where
  "py_split1 sep s =
     (if sep \<in> set s
      then [takeWhile (\<lambda>c. c \<noteq> sep) s, drop 1 (dropWhile (\<lambda>c. c \<noteq> sep) s)]
      else [s])"

text \<open>\<^verbatim>\<open>s.replace(old, new)\<close> for a one-character \<open>old\<close>.\<close>

definition py_replace :: "char \<Rightarrow> string \<Rightarrow> string \<Rightarrow> string" where
  "py_replace old new s = concat (map (\<lambda>c. if c = old then new else [c]) s)"

fun py_join :: "string \<Rightarrow> string list \<Rightarrow> string" where
  "py_join sep [] = []"
| "py_join sep [x] = x"
| "py_join sep (x # y # ys) = x @ sep @ py_join sep (y # ys)"

text \<open>
  \<^verbatim>\<open>s.isdigit()\<close> and \<^verbatim>\<open>int(s)\<close> on ASCII strings: the digits are \<^verbatim>\<open>0\<close> to
  \<^verbatim>\<open>9\<close>, on which \<^verbatim>\<open>int\<close> does not fail. (Beyond ASCII, Python counts the superscript
  digits as digits too, and \<^verbatim>\<open>int\<close> raises ValueError on them.)
\<close>

definition isdigit :: "string \<Rightarrow> bool" where
  "isdigit s = (s \<noteq> [] \<and> list_all (\<lambda>c. c \<in> set ''0123456789'') s)"

definition digit_val :: "char \<Rightarrow> nat" where
  "digit_val c = length (takeWhile (\<lambda>d. d \<noteq> c) ''0123456789'')"

definition py_int :: "string \<Rightarrow> nat" where
  "py_int s = foldl (\<lambda>a c. 10 * a + digit_val c) 0 s"

text \<open>\<^verbatim>\<open>str(n)\<close> for an integer.\<close>

fun nat_digits :: "nat \<Rightarrow> string" where
  "nat_digits n =
     (if n < 10 then [''0123456789'' ! n]
      else nat_digits (n div 10) @ [''0123456789'' ! (n mod 10)])"

declare nat_digits.simps [simp del]

definition str_int :: "int \<Rightarrow> string" where
  "str_int i = (if i < 0 then CHR ''-'' # nat_digits (nat (- i)) else nat_digits (nat i))"

text \<open>
  \<^verbatim>\<open>repr(s)\<close> for an ASCII string: single quotes unless the string holds a single quote
  and no double quote; the quote, the backslash and the ASCII control characters are
  escaped. (Beyond ASCII, Python escapes the code points that are not printable as well.)
\<close>

definition hex_digit :: "nat \<Rightarrow> char" where
  "hex_digit n = ''0123456789abcdef'' ! (n mod 16)"

definition repr_char :: "char \<Rightarrow> char \<Rightarrow> string" where
  "repr_char q c =
     (if c = q \<or> c = CHR 0x5C then [CHR 0x5C, c]
      else if c = CHR 0x09 then [CHR 0x5C, CHR ''t'']
      else if c = CHR 0x0A then [CHR 0x5C, CHR ''n'']
      else if c = CHR 0x0D then [CHR 0x5C, CHR ''r'']
      else if (of_char c :: nat) < 32 \<or> c = CHR 0x7F
        then [CHR 0x5C, CHR ''x'', hex_digit (of_char c div 16), hex_digit (of_char c)]
      else [c])"

definition repr_str :: "string \<Rightarrow> string" where
  "repr_str s =
     (let q = (if CHR 0x27 \<in> set s \<and> CHR 0x22 \<notin> set s then CHR 0x22 else CHR 0x27)
      in [q] @ concat (map (repr_char q) s) @ [q])"

text \<open>\<^verbatim>\<open>repr(v)\<close> and \<^verbatim>\<open>str(v)\<close>.\<close>

primrec py_repr :: "pyval \<Rightarrow> string" where
  "py_repr VNone = ''None''"
| "py_repr (VBool b) = (if b then ''True'' else ''False'')"
| "py_repr (VInt i) = str_int i"
| "py_repr (VStr s) = repr_str s"
| "py_repr (VDict kvs) =
     ''{'' @ py_join '', '' (map (\<lambda>(k, r). repr_str k @ '': '' @ r)
                                (map (map_prod (\<lambda>k. k) py_repr) kvs)) @ ''}''"
| "py_repr (VList xs) = ''['' @ py_join '', '' (map py_repr xs) @ '']''"

definition py_str :: "pyval \<Rightarrow> string" where
  "py_str v = (case v of VStr s \<Rightarrow> s | _ \<Rightarrow> py_repr v)"

text \<open>\<^verbatim>\<open>html.escape(s)\<close>, with its default \<^verbatim>\<open>quote=True\<close>.\<close>

definition html_escape_char :: "char \<Rightarrow> string" where
  "html_escape_char c =
     (if c = CHR ''&'' then ''&amp;''
      else if c = CHR ''<'' then ''&lt;''
      else if c = CHR ''>'' then ''&gt;''
      else if c = CHR 0x22 then ''&quot;''
      else if c = CHR 0x27 then ''&#x27;''
      else [c])"

definition html_escape :: "string \<Rightarrow> string" where
  "html_escape s = concat (map html_escape_char s)"

subsection \<open>Collaborators\<close>

text \<open>
  What \<^verbatim>\<open>gtl.py\<close> takes from outside: \<^verbatim>\<open>os.sep\<close>, the resource loader
  \<^verbatim>\<open>gruyere._Open(gruyere.RESOURCE_PATH, fname)\<close> with the \<^verbatim>\<open>read()\<close> of the handle it
  returns, and \<^verbatim>\<open>sanitize.SanitizeHtml\<close>. Opening or reading a resource either gives
  its text or fails with IOError.
\<close>

datatype file_result = OpenFails | ReadFails | Content string

record env =
  os_sep :: string
  gruyere_Open :: "string \<Rightarrow> file_result"
  SanitizeHtml :: "string \<Rightarrow> string"

subsection \<open>Finding a tag\<close>

definition BLOCK_OPEN :: string where "BLOCK_OPEN = ''[[''"
definition END_BLOCK_OPEN :: string where "END_BLOCK_OPEN = ''[[/''"
definition BLOCK_CLOSE :: string where "BLOCK_CLOSE = '']]''"
definition VAR_OPEN :: string where "VAR_OPEN = ''{{''"
definition VAR_CLOSE :: string where "VAR_CLOSE = ''}}''"
definition FOR_TAG :: string where "FOR_TAG = ''for''"
definition IF_TAG :: string where "IF_TAG = ''if''"
definition INCLUDE_TAG :: string where "INCLUDE_TAG = ''include''"

text \<open>\<^verbatim>\<open>_FindTag\<close>: \<open>None\<close> stands for \<^verbatim>\<open>(None, None, None)\<close>.\<close>

definition FindTag :: "string \<Rightarrow> string \<Rightarrow> string \<Rightarrow> (string \<times> int \<times> int) option" where
  "FindTag template open_marker close_marker =
     (let open_pos = py_find template open_marker 0;
          close_pos = py_find template close_marker open_pos
      in if open_pos < 0 \<or> close_pos < 0 \<or> open_pos > close_pos then None
         else Some (py_slice template (open_pos + int (length open_marker)) close_pos,
                    open_pos,
                    close_pos + int (length close_marker)))"

subsection \<open>Variables\<close>

text \<open>\<^verbatim>\<open>_GetValue(collection, index, default)\<close>.\<close>

definition GetValue :: "pyval \<Rightarrow> string \<Rightarrow> pyval \<Rightarrow> pyval" where
  "GetValue collection index dflt =
     (case collection of
        VDict kvs \<Rightarrow> (case map_of kvs index of Some v \<Rightarrow> v | None \<Rightarrow> dflt)
      | VList xs \<Rightarrow>
          if isdigit index \<and> py_int index < length xs then xs ! py_int index else dflt
      | VStr s \<Rightarrow>
          if isdigit index \<and> py_int index < length s then VStr [s ! py_int index] else dflt
      | _ \<Rightarrow> dflt)"

text \<open>
  One round of the loop of \<^verbatim>\<open>_ExpandValue\<close> over the fields of a path. The field
  \<^verbatim>\<open>*_this\<close> is replaced by \<open>params\<close>, which has \<^verbatim>\<open>startswith\<close> only when it is a
  string; a field \<^verbatim>\<open>*p\<close> is replaced by the request parameter \<open>p\<close>, and by its first
  element when that is a Sequence.
\<close>

definition ExpandField ::
  "(string \<times> pyval) list \<Rightarrow> pyval \<Rightarrow> pyval \<Rightarrow> pyval \<Rightarrow> string \<Rightarrow> pyval result" where
  "ExpandField specials params dflt val field =
     bind (let v = (if field = ''*_this'' then params else VStr field)
           in case v of
                VStr s \<Rightarrow>
                  if startswith s ''*''
                  then bind (dict_getitem specials ''_params'') (\<lambda>p.
                         let v = GetValue p (drop 1 s) (VStr '''')
                         in if is_Sequence v then seq_first v else ret v)
                  else ret v
              | _ \<Rightarrow> raise AttributeError)
       (\<lambda>v. ret (GetValue val (py_str v) dflt))"

definition ExpandValue ::
  "string \<Rightarrow> (string \<times> pyval) list \<Rightarrow> pyval \<Rightarrow> string \<Rightarrow> pyval \<Rightarrow> pyval result" where
  "ExpandValue var specials params name dflt =
     (if var = ''_key'' then ret (VStr name)
      else if var = ''_this'' then ret params
      else foldM (ExpandField specials params dflt) (py_split CHR ''.'' var)
             (if startswith var ''_'' then VDict specials else params))"

text \<open>
  \<^verbatim>\<open>_ExpandVariable\<close>, with \<^verbatim>\<open>default=''\<close>. The module never imports \<^verbatim>\<open>cgi\<close>, so
  in the pprint branch the name \<^verbatim>\<open>cgi\<close> is unbound and evaluating \<^verbatim>\<open>cgi.escape\<close>
  raises NameError, before \<^verbatim>\<open>pprint.pformat\<close> is called.
\<close>

definition ExpandVariable ::
  "env \<Rightarrow> string \<Rightarrow> (string \<times> pyval) list \<Rightarrow> pyval \<Rightarrow> string \<Rightarrow> pyval result" where
  "ExpandVariable E var specials params name =
     (if startswith var ''#'' then ret (VStr '''')
      else
        let inverted = startswith var ''!'';
            var = (if inverted then drop 1 var else var);
            parts = (if py_find var '':'' 0 \<ge> 0 then py_split1 CHR '':'' var else [var]);
            var = hd parts;
            escaper_name = (case tl parts of [] \<Rightarrow> None | e # _ \<Rightarrow> Some e)
        in bind (ExpandValue var specials params name (VStr '''')) (\<lambda>val.
             let val = (if inverted then VBool (\<not> truthy val) else val)
             in bind (if escaper_name = Some ''text'' then ret (VStr (html_escape (py_str val)))
                      else if escaper_name = Some ''html''
                        then ret (VStr (SanitizeHtml E (py_str val)))
                      else if escaper_name = Some ''pprint'' then raise NameError
                      else ret val)
                  (\<lambda>val. ret (if val = VNone then VStr '''' else val))))"

lemma bind_cong [fundef_cong]:
  "m = m' \<Longrightarrow> (\<And>es x. m' = (es, Inr x) \<Longrightarrow> f x = f' x) \<Longrightarrow> bind m f = bind m' f'"
  by (auto simp: bind_def split: prod.splits sum.splits)

lemma clamp_index_pos: "0 < i \<Longrightarrow> 0 < n \<Longrightarrow> 0 < clamp_index i n"
  by (simp add: clamp_index_def)

lemma length_slice_from: "0 < i \<Longrightarrow> s \<noteq> [] \<Longrightarrow> length (slice_from s i) < length s"
  using clamp_index_pos [of i "length s"] by (simp add: slice_from_def)

lemma length_py_slice: "0 < i \<Longrightarrow> s \<noteq> [] \<Longrightarrow> length (py_slice s i j) < length s"
  using clamp_index_pos [of i "length s"] by (auto simp: py_slice_def Let_def min_def)

lemma FindTag_after:
  "FindTag s op cl = Some (tag, before_tag, after_tag) \<Longrightarrow> int (length cl) \<le> after_tag"
  by (auto simp: FindTag_def Let_def split: if_splits)

text \<open>The loop of \<^verbatim>\<open>_ExpandVariables\<close>, with its accumulator \<open>result\<close>.\<close>

function ExpandVariables_loop ::
  "env \<Rightarrow> string list \<Rightarrow> string \<Rightarrow> (string \<times> pyval) list \<Rightarrow> pyval \<Rightarrow> string \<Rightarrow> string result"
where
  "ExpandVariables_loop E result rest specials params name =
     (if rest = [] then ret (concat result @ rest)
      else
        case FindTag rest VAR_OPEN VAR_CLOSE of
          None \<Rightarrow> ret (concat result @ rest)
        | Some (tag, before_tag, after_tag) \<Rightarrow>
            bind (ExpandVariable E tag specials params name) (\<lambda>v.
              ExpandVariables_loop E (result @ [slice_to rest before_tag, py_str v])
                (slice_from rest after_tag) specials params name))"
  by pat_completeness auto
termination
proof (relation "measure (\<lambda>(E, result, rest, specials, params, name). length rest)")
  show "wf (measure (\<lambda>(E, result, rest, specials, params, name). length rest))"
    by simp
next
  fix E :: env and result :: "string list" and rest :: string
    and specials :: "(string \<times> pyval) list" and params :: pyval and name :: string
    and x2 :: "string \<times> int \<times> int" and tag y before_tag after_tag es v
  assume "rest \<noteq> []" and "FindTag rest VAR_OPEN VAR_CLOSE = Some x2"
    and "(tag, y) = x2" and "(before_tag, after_tag) = y"
  then have "0 < after_tag"
    using FindTag_after [of rest VAR_OPEN VAR_CLOSE tag before_tag after_tag]
    by (auto simp: VAR_CLOSE_def)
  with \<open>rest \<noteq> []\<close>
  show "((E, result @ [slice_to rest before_tag, py_str v], slice_from rest after_tag,
          specials, params, name), (E, result, rest, specials, params, name))
        \<in> measure (\<lambda>(E, result, rest, specials, params, name). length rest)"
    by (simp add: length_slice_from)
qed

declare ExpandVariables_loop.simps [simp del]

definition ExpandVariables ::
  "env \<Rightarrow> string \<Rightarrow> (string \<times> pyval) list \<Rightarrow> pyval \<Rightarrow> string \<Rightarrow> string result" where
  "ExpandVariables E template specials params name =
     ExpandVariables_loop E [] template specials params name"

lemma block_shorter:
  "rest \<noteq> [] \<Longrightarrow> FindTag rest BLOCK_OPEN BLOCK_CLOSE = Some (tag, before_tag, after_tag)
    \<Longrightarrow> length (py_slice rest after_tag j) < length rest"
  using FindTag_after [of rest BLOCK_OPEN BLOCK_CLOSE tag before_tag after_tag]
  by (simp add: BLOCK_CLOSE_def length_py_slice)

subsection \<open>Blocks\<close>

lemma mapM_cong [fundef_cong]:
  "xs = ys \<Longrightarrow> (\<And>x. x \<in> set ys \<Longrightarrow> f x = g x) \<Longrightarrow> mapM f xs = mapM g ys"
  by (induction ys arbitrary: xs) (auto cong: bind_cong)

text \<open>
  \<^verbatim>\<open>ExpandTemplate\<close>, \<^verbatim>\<open>_ExpandBlocks\<close> (with its loop and the accumulator \<open>result\<close>),
  \<^verbatim>\<open>_ExpandBlock\<close>, \<^verbatim>\<open>_ExpandInclude\<close> and \<^verbatim>\<open>_ExpandFor\<close> call each other. The body
  of a block is shorter than the template it stands in, so the recursion through
  \<^verbatim>\<open>if\<close> and \<^verbatim>\<open>for\<close> blocks and through the fallback of \<^verbatim>\<open>include\<close> ends. An included
  resource can hold any text (itself included): \<open>fuel\<close> bounds the depth of nested
  resources, and expanding a resource with no fuel left is Python's RecursionError.

  In \<^verbatim>\<open>_ExpandInclude\<close> the \<^verbatim>\<open>try\<close> statement has three outcomes: the resource is
  opened and read (the handle is closed by \<^verbatim>\<open>finally\<close>), opening raises IOError (no
  handle, the error is logged), or reading raises IOError (the error is logged and the
  handle is closed by \<^verbatim>\<open>finally\<close>).
\<close>

function ExpandTemplate ::
    "env \<Rightarrow> nat \<Rightarrow> string \<Rightarrow> (string \<times> pyval) list \<Rightarrow> pyval \<Rightarrow> string \<Rightarrow> string result"
  and ExpandBlocks ::
    "env \<Rightarrow> nat \<Rightarrow> string \<Rightarrow> (string \<times> pyval) list \<Rightarrow> pyval \<Rightarrow> string \<Rightarrow> string result"
  and ExpandBlocks_loop ::
    "env \<Rightarrow> nat \<Rightarrow> string list \<Rightarrow> string \<Rightarrow> (string \<times> pyval) list \<Rightarrow> pyval \<Rightarrow> string
      \<Rightarrow> string result"
  and ExpandBlock ::
    "env \<Rightarrow> nat \<Rightarrow> string \<Rightarrow> string \<Rightarrow> (string \<times> pyval) list \<Rightarrow> pyval \<Rightarrow> string
      \<Rightarrow> string result"
  and ExpandInclude ::
    "env \<Rightarrow> nat \<Rightarrow> string \<Rightarrow> string \<Rightarrow> string \<Rightarrow> (string \<times> pyval) list \<Rightarrow> pyval \<Rightarrow> string
      \<Rightarrow> string result"
  and ExpandFor ::
    "env \<Rightarrow> nat \<Rightarrow> string \<Rightarrow> string \<Rightarrow> (string \<times> pyval) list \<Rightarrow> pyval \<Rightarrow> string result"
where
  "ExpandTemplate E fuel template specials params name =
     bind (ExpandBlocks E fuel template specials params name) (\<lambda>t.
       ExpandVariables E t specials params name)"
| "ExpandBlocks E fuel template specials params name =
     ExpandBlocks_loop E fuel [] template specials params name"
| "ExpandBlocks_loop E fuel result rest specials params name =
     (if rest = [] then ret (concat result @ rest)
      else
        case FindTag rest BLOCK_OPEN BLOCK_CLOSE of
          None \<Rightarrow> ret (concat result @ rest)
        | Some (tag, before_tag, after_tag) \<Rightarrow>
            let end_tag = END_BLOCK_OPEN @ tag @ BLOCK_CLOSE;
                before_end = py_find rest end_tag after_tag
            in if before_end < 0 then ret (concat result @ rest)
               else
                 let after_end = before_end + int (length end_tag);
                     block = py_slice rest after_tag before_end
                 in bind (ExpandBlock E fuel tag block specials params name) (\<lambda>b.
                      ExpandBlocks_loop E fuel (result @ [slice_to rest before_tag, b])
                        (slice_from rest after_end) specials params name))"
| "ExpandBlock E fuel tag template specials params name =
     (case py_split1 CHR '':'' tag of
        [tag_type, block_var] \<Rightarrow>
          if tag_type = INCLUDE_TAG
            then ExpandInclude E fuel tag block_var template specials params name
          else if tag_type = IF_TAG
            then bind (ExpandVariable E block_var specials params name) (\<lambda>block_data.
                   if truthy block_data
                   then ExpandTemplate E fuel template specials params name
                   else ret [])
          else if tag_type = FOR_TAG
            then bind (ExpandVariable E block_var specials params name) (\<lambda>block_data.
                   ExpandFor E fuel tag template specials block_data)
          else bind (emit [Log (''Error: Invalid block: '' @ tag)]) (\<lambda>_. ret [])
      | _ \<Rightarrow> raise ValueError)"
| "ExpandInclude E fuel tag filename template specials params name =
     (let fname = os_sep E @ py_replace CHR ''/'' (os_sep E) filename
      in case gruyere_Open E fname of
           Content data \<Rightarrow>
             bind (emit [Opened fname, Closed fname]) (\<lambda>_.
               case fuel of
                 0 \<Rightarrow> raise RecursionError
               | Suc fuel' \<Rightarrow> ExpandTemplate E fuel' data specials params name)
         | OpenFails \<Rightarrow>
             bind (emit [Log (''Error: missing filename: '' @ filename)]) (\<lambda>_.
               ExpandTemplate E fuel template specials params name)
         | ReadFails \<Rightarrow>
             bind (emit [Opened fname, Log (''Error: missing filename: '' @ filename),
                         Closed fname]) (\<lambda>_.
               ExpandTemplate E fuel template specials params name))"
| "ExpandFor E fuel tag template specials block_data =
     (case block_data of
        VDict kvs \<Rightarrow>
          bind (mapM (\<lambda>v. bind (dict_getitem kvs v) (\<lambda>p.
                        ExpandTemplate E fuel template specials p v))
                  (map fst kvs))
            (\<lambda>result. ret (concat result))
      | VList xs \<Rightarrow>
          bind (mapM (\<lambda>i. bind (list_getitem xs i) (\<lambda>p.
                        ExpandTemplate E fuel template specials p (str_int (int i))))
                  [0..<length xs])
            (\<lambda>result. ret (concat result))
      | VStr s \<Rightarrow>
          bind (mapM (\<lambda>i. bind (list_getitem s i) (\<lambda>c.
                        ExpandTemplate E fuel template specials (VStr [c]) (str_int (int i))))
                  [0..<length s])
            (\<lambda>result. ret (concat result))
      | _ \<Rightarrow> bind (emit [Log (''Error: Invalid type: '' @ tag)]) (\<lambda>_. ret []))"
  by pat_completeness auto
termination
proof (relation "inv_image (less_than <*lex*> less_than <*lex*> less_than)
   (\<lambda>c. case c of
      Inl (Inl (E, fuel, template, specials, params, name)) \<Rightarrow>
        (fuel, length template, 3::nat)
    | Inl (Inr (Inl (E, fuel, template, specials, params, name))) \<Rightarrow>
        (fuel, length template, 2)
    | Inl (Inr (Inr (E, fuel, result, rest, specials, params, name))) \<Rightarrow>
        (fuel, length rest, 1)
    | Inr (Inl (E, fuel, tag, template, specials, params, name)) \<Rightarrow>
        (fuel, length template, 6)
    | Inr (Inr (Inl (E, fuel, tag, filename, template, specials, params, name))) \<Rightarrow>
        (fuel, length template, 5)
    | Inr (Inr (Inr (E, fuel, tag, template, specials, block_data))) \<Rightarrow>
        (fuel, length template, 4))", goal_cases)
  case 1
  show ?case by (intro wf_inv_image wf_lex_prod wf_less_than)
next
  case (4 E fuel result rest specials params name x2 tag y before_tag after_tag)
  then show ?case by (auto simp: block_shorter)
next
  case (5 E fuel result rest specials params name x2 tag y before_tag after_tag end_tag
      before_end after_end)
  then have "0 < after_end"
    by (simp add: END_BLOCK_OPEN_def)
  from length_slice_from [OF this \<open>rest \<noteq> []\<close>] show ?case
    by simp
qed simp_all

declare ExpandTemplate.simps [simp del] ExpandBlocks.simps [simp del]
  ExpandBlocks_loop.simps [simp del] ExpandBlock.simps [simp del]
  ExpandInclude.simps [simp del] ExpandFor.simps [simp del]

subsection \<open>An environment for concrete runs\<close>

text \<open>
  A POSIX separator, a resource root that holds \<^verbatim>\<open>/menu.gtl\<close>, a resource
  \<^verbatim>\<open>/broken\<close> that opens and then fails to read, and nothing else; the sanitizer
  leaves its input as it is.
\<close>

definition test_env :: env where
  "test_env =
     \<lparr>os_sep = ''/'',
      gruyere_Open = (\<lambda>f. if f = ''/menu.gtl'' then Content ''Hi {{name}}''
                          else if f = ''/broken'' then ReadFails
                          else OpenFails),
      SanitizeHtml = (\<lambda>s. s)\<rparr>"

text \<open>
  The specials of a request: \<^verbatim>\<open>_db\<close>, \<^verbatim>\<open>_cookie\<close>, \<^verbatim>\<open>_profile\<close> and
  \<^verbatim>\<open>_params\<close> are all present; no request parameter is set.
\<close>

definition test_specials :: "(string \<times> pyval) list" where
  "test_specials =
     [(''_db'', VDict [(''u1'', VStr ''hello'')]),
      (''_cookie'', VDict []),
      (''_profile'', VDict []),
      (''_params'', VDict [])]"

subsection \<open>Resource handles\<close>

text \<open>
  The handles that are open after a run of events, starting from the handles \<open>hs\<close>:
  opening a resource adds its handle, closing removes it.
\<close>

primrec handles_after :: "string list \<Rightarrow> event list \<Rightarrow> string list" where
  "handles_after hs [] = hs"
| "handles_after hs (e # es) =
     handles_after (case e of Opened f \<Rightarrow> f # hs | Closed f \<Rightarrow> remove1 f hs | Log m \<Rightarrow> hs) es"

definition open_handles :: "event list \<Rightarrow> string list" where
  "open_handles es = handles_after [] es"

section \<open>Properties\<close>

subsection \<open>Sequencing and string search\<close>

lemma bind_ret: "bind (ret x) f = f x"
  by (simp add: bind_def ret_def split: prod.splits)

lemma bind_raise: "bind (raise e) f = raise e"
  by (simp add: bind_def raise_def)

lemma find_from_absent: "c \<notin> set s \<Longrightarrow> find_from [c] s k = - 1"
  by (induction s arbitrary: k) auto

lemma find_from_present: "c \<in> set s \<Longrightarrow> 0 \<le> find_from [c] s k"
  by (induction s arbitrary: k) auto

lemma py_find_single: "0 \<le> py_find s [c] 0 \<longleftrightarrow> c \<in> set s"
proof (cases "c \<in> set s")
  case True
  then show ?thesis using find_from_present [of c s 0] by (simp add: py_find_def)
next
  case False
  then show ?thesis using find_from_absent [of c s 0] by (simp add: py_find_def)
qed

lemma py_split1_absent: "sep \<notin> set s \<Longrightarrow> py_split1 sep s = [s]"
  by (simp add: py_split1_def)

lemma py_split1_first: "sep \<notin> set a \<Longrightarrow> py_split1 sep (a @ sep # b) = [a, b]"
  by (induction a) (auto simp: py_split1_def)

lemma FindTag_nonempty: "FindTag s BLOCK_OPEN BLOCK_CLOSE = Some r \<Longrightarrow> s \<noteq> []"
  by (auto simp: FindTag_def py_find_def BLOCK_OPEN_def Let_def)

subsection \<open>The two passes\<close>

text \<open>
  C2: \<^verbatim>\<open>ExpandTemplate(template, specials, params, name)\<close> is
  \<^verbatim>\<open>_ExpandVariables(_ExpandBlocks(template, ...), ...)\<close>: the block pass runs first, over
  the whole template, and the variable pass runs once, over what the block pass returns.
  The events of the block pass come first, and an exception of the block pass is the
  outcome of the whole.
\<close>

theorem ExpandTemplate_two_pass:
  "ExpandTemplate E fuel template specials params name =
     bind (ExpandBlocks E fuel template specials params name)
       (\<lambda>t. ExpandVariables E t specials params name)"
  by (simp add: ExpandTemplate.simps)

theorem ExpandTemplate_two_pass_witness:
  "ExpandTemplate test_env 0 ''a[[if:x]]{{y}}[[/if:x]]c{{y}}'' []
     (VDict [(''x'', VBool True), (''y'', VInt 7)]) [] = ([], Inr ''a7c7'')
   \<and> ExpandBlocks test_env 0 ''a[[if:x]]{{y}}[[/if:x]]c{{y}}'' []
     (VDict [(''x'', VBool True), (''y'', VInt 7)]) [] = ([], Inr ''a7c{{y}}'')"
proof -
  have blocks: "ExpandBlocks test_env 0 ''a[[if:x]]{{y}}[[/if:x]]c{{y}}'' []
     (VDict [(''x'', VBool True), (''y'', VInt 7)]) [] = ([], Inr ''a7c{{y}}'')"
    by code_simp
  have vars: "bind ([], Inr ''a7c{{y}}'')
       (\<lambda>t. ExpandVariables test_env t [] (VDict [(''x'', VBool True), (''y'', VInt 7)]) [])
     = ([], Inr ''a7c7'')"
    by code_simp
  show ?thesis
    using ExpandTemplate_two_pass [of test_env 0 "''a[[if:x]]{{y}}[[/if:x]]c{{y}}''" "[]"
        "VDict [(''x'', VBool True), (''y'', VInt 7)]" "[]"]
    by (simp only: blocks vars)
qed

subsection \<open>Unmatched open tags\<close>

text \<open>
  C6: in the block pass, when the close tag \<^verbatim>\<open>[[/\<close> \<open>tag\<close> \<^verbatim>\<open>]]\<close> of the open tag
  found does not occur after it, scanning stops: what is left of the template, from the
  text before the unmatched open marker to the end, is appended as it is, and no block
  of it is expanded in that pass.
\<close>

theorem unmatched_open_tag_stops_scan:
  assumes "FindTag rest BLOCK_OPEN BLOCK_CLOSE = Some (tag, before_tag, after_tag)"
    and "py_find rest (END_BLOCK_OPEN @ tag @ BLOCK_CLOSE) after_tag < 0"
  shows "ExpandBlocks_loop E fuel result rest specials params name =
           ([], Inr (concat result @ rest))
       \<and> ExpandBlocks E fuel rest specials params name = ([], Inr rest)"
  using assms FindTag_nonempty [OF assms(1)]
  by (simp add: ExpandBlocks.simps ExpandBlocks_loop.simps [of E fuel _ rest] ret_def)

theorem unmatched_open_tag_stops_scan_witness:
  "FindTag ''x[[if:a]]y[[if:b]]z[[/if:b]]'' BLOCK_OPEN BLOCK_CLOSE = Some (''if:a'', 1, 9)
   \<and> py_find ''x[[if:a]]y[[if:b]]z[[/if:b]]'' (END_BLOCK_OPEN @ ''if:a'' @ BLOCK_CLOSE) 9 < 0
   \<and> ExpandBlocks_loop test_env 0 [''p'', ''q''] ''x[[if:a]]y[[if:b]]z[[/if:b]]'' []
        (VDict [(''b'', VBool True)]) [] = ([], Inr ''pqx[[if:a]]y[[if:b]]z[[/if:b]]'')
   \<and> ExpandBlocks test_env 0 ''x[[if:a]]y[[if:b]]z[[/if:b]]'' []
        (VDict [(''b'', VBool True)]) [] = ([], Inr ''x[[if:a]]y[[if:b]]z[[/if:b]]'')"
proof -
  have tag: "FindTag ''x[[if:a]]y[[if:b]]z[[/if:b]]'' BLOCK_OPEN BLOCK_CLOSE
      = Some (''if:a'', 1, 9)"
    by code_simp
  have no_end: "py_find ''x[[if:a]]y[[if:b]]z[[/if:b]]''
      (END_BLOCK_OPEN @ ''if:a'' @ BLOCK_CLOSE) 9 < 0"
    by code_simp
  show ?thesis
    using unmatched_open_tag_stops_scan [OF tag no_end, of test_env 0 "[''p'', ''q'']" "[]"
        "VDict [(''b'', VBool True)]" "[]"] tag no_end
    by simp
qed

subsection \<open>Block tags without a colon\<close>

text \<open>
  C10, as stated, fails: not every properly closed block whose tag holds no \<^verbatim>\<open>:\<close>
  makes the expansion raise. Such a block in the body of an \<^verbatim>\<open>if\<close> block whose test is
  falsy is dropped with the body, and such a block after an unmatched open tag is
  returned as it is; in both cases \<^verbatim>\<open>_ExpandBlock\<close> is never called on it and
  \<^verbatim>\<open>ExpandTemplate\<close> returns.
\<close>

theorem undispatched_block_without_colon_counterexample:
  "ExpandTemplate test_env 0 ''[[if:x]][[foo]]body[[/foo]][[/if:x]]'' [] (VDict []) []
     = ([], Inr [])
   \<and> ExpandTemplate test_env 0 ''[[a]][[foo]]body[[/foo]]'' [] (VDict []) []
     = ([], Inr ''[[a]][[foo]]body[[/foo]]'')"
  by code_simp

text \<open>
  C10, amended: a properly closed block that the block pass dispatches (its tag is the
  one the scan finds in what is left of the template, and its close tag occurs after it)
  and whose tag holds no \<^verbatim>\<open>:\<close> makes the two-way unpacking of \<^verbatim>\<open>tag.split(':', 1)\<close>
  in \<^verbatim>\<open>_ExpandBlock\<close> raise ValueError. Nothing catches it: it ends the block pass,
  whatever was accumulated before, and escapes \<^verbatim>\<open>ExpandTemplate\<close>; it is not handled as
  an invalid block (no message is logged).
\<close>

theorem block_without_colon_raises:
  assumes "FindTag rest BLOCK_OPEN BLOCK_CLOSE = Some (tag, before_tag, after_tag)"
    and "0 \<le> py_find rest (END_BLOCK_OPEN @ tag @ BLOCK_CLOSE) after_tag"
    and "CHR '':'' \<notin> set tag"
  shows "ExpandBlock E fuel tag body specials params name = ([], Inl ValueError)
       \<and> ExpandBlocks_loop E fuel result rest specials params name = ([], Inl ValueError)
       \<and> ExpandTemplate E fuel rest specials params name = ([], Inl ValueError)"
proof -
  have blk: "\<And>body. ExpandBlock E fuel tag body specials params name = raise ValueError"
    using assms(3) by (simp add: ExpandBlock.simps py_split1_absent)
  have loop: "\<And>result.
      ExpandBlocks_loop E fuel result rest specials params name = raise ValueError"
    using assms(1,2) FindTag_nonempty [OF assms(1)]
    by (simp add: ExpandBlocks_loop.simps [of E fuel _ rest] blk bind_raise Let_def)
  show ?thesis
    by (simp add: blk loop ExpandTemplate.simps ExpandBlocks.simps bind_raise)
      (simp add: raise_def)
qed

theorem block_without_colon_raises_witness:
  "FindTag ''[[foo]]body[[/foo]]'' BLOCK_OPEN BLOCK_CLOSE = Some (''foo'', 0, 7)
   \<and> 0 \<le> py_find ''[[foo]]body[[/foo]]'' (END_BLOCK_OPEN @ ''foo'' @ BLOCK_CLOSE) 7
   \<and> CHR '':'' \<notin> set ''foo''
   \<and> ExpandBlock test_env 0 ''foo'' ''body'' [] (VDict []) [] = ([], Inl ValueError)
   \<and> ExpandBlocks_loop test_env 0 [] ''[[foo]]body[[/foo]]'' [] (VDict []) []
       = ([], Inl ValueError)
   \<and> ExpandTemplate test_env 0 ''[[foo]]body[[/foo]]'' [] (VDict []) []
       = ([], Inl ValueError)"
proof -
  have tag: "FindTag ''[[foo]]body[[/foo]]'' BLOCK_OPEN BLOCK_CLOSE = Some (''foo'', 0, 7)"
    by code_simp
  have closed: "0 \<le> py_find ''[[foo]]body[[/foo]]'' (END_BLOCK_OPEN @ ''foo'' @ BLOCK_CLOSE) 7"
    by code_simp
  have no_colon: "CHR '':'' \<notin> set ''foo''"
    by simp
  show ?thesis
    using block_without_colon_raises [OF tag closed no_colon, of test_env 0 "''body''" "[]"
        "VDict []" "[]" "[]"] tag closed
    by simp
qed

subsection \<open>Variable expressions emit no events\<close>

lemma fst_bind_nil:
  "fst m = [] \<Longrightarrow> (\<And>es x. m = (es, Inr x) \<Longrightarrow> fst (f x) = []) \<Longrightarrow> fst (bind m f) = []"
  by (auto simp: bind_def split: prod.splits sum.splits)

lemma fst_ret: "fst (ret x) = []"
  by (simp add: ret_def)

lemma fst_raise: "fst (raise e) = []"
  by (simp add: raise_def)

lemma fst_seq_first: "fst (seq_first v) = []"
  by (cases v rule: seq_first.cases) (simp_all add: fst_ret fst_raise)

lemma fst_dict_getitem: "fst (dict_getitem kvs k) = []"
  by (simp add: dict_getitem_def fst_ret fst_raise split: option.splits)

lemma fst_foldM: "(\<And>a x. fst (f a x) = []) \<Longrightarrow> fst (foldM f xs a) = []"
  by (induction xs arbitrary: a) (simp_all add: fst_ret fst_bind_nil)

lemma fst_ExpandField: "fst (ExpandField specials params dflt val field) = []"
  unfolding ExpandField_def Let_def
  by (intro fst_bind_nil) (auto simp: fst_ret fst_raise fst_seq_first fst_dict_getitem
       intro!: fst_bind_nil split: pyval.splits)

lemma fst_ExpandValue: "fst (ExpandValue var specials params name dflt) = []"
  by (simp add: ExpandValue_def fst_ret fst_foldM fst_ExpandField)

lemma fst_ExpandVariable: "fst (ExpandVariable E var specials params name) = []"
  unfolding ExpandVariable_def Let_def
  by (auto simp: fst_ret fst_raise fst_ExpandValue intro!: fst_bind_nil)

subsection \<open>Escapers\<close>

text \<open>
  C9: when the escaper name of a variable expression is set and is none of \<^verbatim>\<open>text\<close>,
  \<^verbatim>\<open>html\<close> and \<^verbatim>\<open>pprint\<close>, the name is ignored: the expression gives what the same
  expression without the escaper gives, so the resolved value is returned with no
  escaping applied and the escaper adds no exception; nothing is logged.
\<close>

theorem unknown_escaper_ignored:
  assumes "CHR '':'' \<notin> set path"
    and "esc \<noteq> ''text''" and "esc \<noteq> ''html''" and "esc \<noteq> ''pprint''"
  shows "ExpandVariable E (path @ '':'' @ esc) specials params name
           = ExpandVariable E path specials params name
       \<and> fst (ExpandVariable E (path @ '':'' @ esc) specials params name) = []
       \<and> (\<not> startswith path ''#'' \<and> \<not> startswith path ''!'' \<longrightarrow>
            ExpandVariable E (path @ '':'' @ esc) specials params name
              = bind (ExpandValue path specials params name (VStr []))
                  (\<lambda>v. ret (if v = VNone then VStr [] else v)))"
proof -
  have eq: "ExpandVariable E (path @ '':'' @ esc) specials params name
           = ExpandVariable E path specials params name"
  proof (cases path)
    case Nil
    then show ?thesis
      using assms(2-4) py_split1_first [of "CHR '':''" "[]" esc]
      by (simp add: ExpandVariable_def startswith_def py_find_single Let_def bind_ret
          py_split1_absent cong del: if_weak_cong)
  next
    case (Cons c p)
    then have c: "c \<noteq> CHR '':''" "CHR '':'' \<notin> set p"
      using assms(1) by auto
    show ?thesis
      unfolding Cons
      using assms(2-4) c py_split1_first [of "CHR '':''" "c # p" esc]
        py_split1_first [of "CHR '':''" p esc]
      by (simp add: ExpandVariable_def startswith_def py_find_single Let_def bind_ret
          py_split1_absent cong del: if_weak_cong)
  qed
  have direct: "ExpandVariable E path specials params name
              = bind (ExpandValue path specials params name (VStr []))
                  (\<lambda>v. ret (if v = VNone then VStr [] else v))"
    if "\<not> startswith path ''#''" "\<not> startswith path ''!''"
    using that assms(1)
    by (simp add: ExpandVariable_def Let_def bind_ret py_find_single cong del: if_weak_cong)
  show ?thesis
    using eq direct by (simp add: fst_ExpandVariable)
qed


theorem unknown_escaper_ignored_witness:
  "CHR '':'' \<notin> set ''x'' \<and> ''bogus'' \<noteq> ''text'' \<and> ''bogus'' \<noteq> ''html'' \<and> ''bogus'' \<noteq> ''pprint''
   \<and> ExpandVariable test_env ''x:bogus'' [] (VDict [(''x'', VStr ''<b>'')]) []
        = ([], Inr (VStr ''<b>''))
   \<and> ExpandVariable test_env ''x:text'' [] (VDict [(''x'', VStr ''<b>'')]) []
        = ([], Inr (VStr ''&lt;b&gt;''))"
proof -
  have a: "CHR '':'' \<notin> set ''x''" by simp
  have b: "''bogus'' \<noteq> ''text''" "''bogus'' \<noteq> ''html''" "''bogus'' \<noteq> ''pprint''"
    by simp_all
  have plain: "ExpandVariable test_env ''x'' [] (VDict [(''x'', VStr ''<b>'')]) []
      = ([], Inr (VStr ''<b>''))"
    by code_simp
  have escaped: "ExpandVariable test_env ''x:text'' [] (VDict [(''x'', VStr ''<b>'')]) []
      = ([], Inr (VStr ''&lt;b&gt;''))"
    by code_simp
  show ?thesis
    using unknown_escaper_ignored [OF a b, of test_env "[]" "VDict [(''x'', VStr ''<b>'')]" "[]"]
      plain escaped
    by simp
qed

lemma for_tag_split: "py_split1 CHR '':'' (''for:'' @ expr) = [''for'', expr]"
  using py_split1_first [of "CHR '':''" "''for''" expr] by simp

lemma if_tag_split: "py_split1 CHR '':'' (''if:'' @ expr) = [''if'', expr]"
  using py_split1_first [of "CHR '':''" "''if''" expr] by simp

lemma include_tag_split: "py_split1 CHR '':'' (''include:'' @ path) = [''include'', path]"
  using py_split1_first [of "CHR '':''" "''include''" path] by simp

lemma truthy_iff:
  "truthy v \<longleftrightarrow> v \<noteq> VNone \<and> v \<noteq> VBool False \<and> v \<noteq> VInt 0 \<and> v \<noteq> VStr [] \<and> v \<noteq> VDict []
     \<and> v \<noteq> VList []"
  by (cases v) auto

subsection \<open>Conditional blocks\<close>

text \<open>
  C4: an \<^verbatim>\<open>[[if:expr]]body[[/if:expr]]\<close> block resolves \<open>expr\<close> as a variable
  expression; when the value is truthy the block contributes the full expansion of
  \<open>body\<close> with the same specials, params and name, and when it is falsy the empty string.
  Falsy are exactly \<^verbatim>\<open>None\<close>, \<^verbatim>\<open>False\<close>, zero, the empty string, the empty dict and the
  empty list. In particular \<^verbatim>\<open>a[[if:x]]b[[/if:x]]c\<close> gives \<^verbatim>\<open>abc\<close> when \<open>x\<close> is
  \<^verbatim>\<open>True\<close>, and \<^verbatim>\<open>ac\<close> when \<open>x\<close> is \<^verbatim>\<open>False\<close> or absent.
\<close>

theorem if_block:
  "ExpandBlock E fuel (''if:'' @ expr) body specials params name =
     bind (ExpandVariable E expr specials params name)
       (\<lambda>v. if truthy v then ExpandTemplate E fuel body specials params name else ret [])
   \<and> (truthy v \<longleftrightarrow> v \<noteq> VNone \<and> v \<noteq> VBool False \<and> v \<noteq> VInt 0 \<and> v \<noteq> VStr [] \<and> v \<noteq> VDict []
        \<and> v \<noteq> VList [])
   \<and> ExpandTemplate E fuel ''a[[if:x]]b[[/if:x]]c'' [] (VDict [(''x'', VBool True)]) []
        = ([], Inr ''abc'')
   \<and> ExpandTemplate E fuel ''a[[if:x]]b[[/if:x]]c'' [] (VDict [(''x'', VBool False)]) []
        = ([], Inr ''ac'')
   \<and> ExpandTemplate E fuel ''a[[if:x]]b[[/if:x]]c'' [] (VDict []) [] = ([], Inr ''ac'')"
proof -
  have general: "ExpandBlock E fuel (''if:'' @ expr) body specials params name =
     bind (ExpandVariable E expr specials params name)
       (\<lambda>v. if truthy v then ExpandTemplate E fuel body specials params name else ret [])"
    by (simp add: ExpandBlock.simps if_tag_split INCLUDE_TAG_def IF_TAG_def del: append.simps)
  have ex1: "ExpandTemplate E fuel ''a[[if:x]]b[[/if:x]]c'' [] (VDict [(''x'', VBool True)]) []
        = ([], Inr ''abc'')"
    by code_simp
  have ex2: "ExpandTemplate E fuel ''a[[if:x]]b[[/if:x]]c'' [] (VDict [(''x'', VBool False)]) []
        = ([], Inr ''ac'')"
    by code_simp
  have ex3: "ExpandTemplate E fuel ''a[[if:x]]b[[/if:x]]c'' [] (VDict []) [] = ([], Inr ''ac'')"
    by code_simp
  show ?thesis
    using general truthy_iff [of v] ex1 ex2 ex3 by blast
qed

theorem if_block_witness:
  "ExpandBlock test_env 0 ''if:!x'' ''b{{y}}'' [] (VDict [(''y'', VInt 3)]) [] = ([], Inr ''b3'')
   \<and> ExpandBlock test_env 0 ''if:x'' ''b{{y}}'' [] (VDict [(''y'', VInt 3)]) [] = ([], Inr [])"
proof -
  have a: "bind (ExpandVariable test_env ''!x'' [] (VDict [(''y'', VInt 3)]) [])
       (\<lambda>v. if truthy v then ExpandTemplate test_env 0 ''b{{y}}'' [] (VDict [(''y'', VInt 3)]) []
            else ret []) = ([], Inr ''b3'')"
    by code_simp
  have b: "bind (ExpandVariable test_env ''x'' [] (VDict [(''y'', VInt 3)]) [])
       (\<lambda>v. if truthy v then ExpandTemplate test_env 0 ''b{{y}}'' [] (VDict [(''y'', VInt 3)]) []
            else ret []) = ([], Inr [])"
    by code_simp
  show ?thesis
    using if_block [of test_env 0 "''!x''" "''b{{y}}''" "[]" "VDict [(''y'', VInt 3)]" "[]"]
      if_block [of test_env 0 "''x''" "''b{{y}}''" "[]" "VDict [(''y'', VInt 3)]" "[]"] a b
    by simp
qed

text \<open>
  C7: the claim is that the \<^verbatim>\<open>pprint\<close> escaper returns \<^verbatim>\<open><pre>\<close>, the escaped
  pretty-printed value and \<^verbatim>\<open></pre>\<close>, for every value. The code does not: whatever the
  path resolves to, the \<^verbatim>\<open>pprint\<close> branch raises NameError, since \<^verbatim>\<open>cgi\<close> is not
  imported (the \<^verbatim>\<open>text\<close> branch beside it calls \<^verbatim>\<open>html.escape\<close>).
\<close>

theorem pprint_escaper_raises_NameError:
  assumes "CHR '':'' \<notin> set path" and "\<not> startswith path ''#''" and "\<not> startswith path ''!''"
    and "ExpandValue path specials params name (VStr []) = (es, Inr v)"
  shows "ExpandVariable E (path @ '':pprint'') specials params name = (es, Inl NameError)"
  using assms py_split1_first [of "CHR '':''" path "''pprint''"]
  by (cases path)
    (simp_all add: ExpandVariable_def startswith_def py_find_single Let_def bind_def raise_def)

theorem pprint_escaper_raises_NameError_witness:
  "CHR '':'' \<notin> set ''x'' \<and> \<not> startswith ''x'' ''#'' \<and> \<not> startswith ''x'' ''!''
   \<and> ExpandValue ''x'' [] (VDict [(''x'', VInt 1)]) [] (VStr []) = ([], Inr (VInt 1))
   \<and> ExpandVariable test_env ''x:pprint'' [] (VDict [(''x'', VInt 1)]) [] = ([], Inl NameError)
   \<and> ExpandTemplate test_env 0 ''{{x:pprint}}'' [] (VDict [(''x'', VInt 1)]) []
        = ([], Inl NameError)"
proof -
  have a: "CHR '':'' \<notin> set ''x''" by simp
  have b: "\<not> startswith ''x'' ''#''" "\<not> startswith ''x'' ''!''" by (simp_all add: startswith_def)
  have c: "ExpandValue ''x'' [] (VDict [(''x'', VInt 1)]) [] (VStr []) = ([], Inr (VInt 1))"
    by code_simp
  have d: "ExpandTemplate test_env 0 ''{{x:pprint}}'' [] (VDict [(''x'', VInt 1)]) []
        = ([], Inl NameError)"
    by code_simp
  show ?thesis
    using pprint_escaper_raises_NameError [OF a b c, of test_env] a b c d by simp
qed


subsection \<open>Indirection through request parameters\<close>

text \<open>
  C1: the claim is that expanding a variable expression never raises when the specials
  hold \<^verbatim>\<open>_db\<close>, \<^verbatim>\<open>_cookie\<close>, \<^verbatim>\<open>_profile\<close> and \<^verbatim>\<open>_params\<close>. The code does raise: a
  field \<^verbatim>\<open>*p\<close> whose request parameter \<open>p\<close> is absent, an empty list or an empty string
  raises IndexError. \<^verbatim>\<open>_GetValue\<close> gives the default \<^verbatim>\<open>''\<close> for an absent parameter,
  the empty string is a Sequence, and \<^verbatim>\<open>v[0]\<close> is taken of it.
\<close>

theorem star_indirection_unset_param_raises:
  assumes "map_of specials ''_params'' = Some (VDict ps)"
    and "map_of ps p = None \<or> map_of ps p = Some (VList []) \<or> map_of ps p = Some (VStr [])"
    and "p \<noteq> ''_this''"
  shows "ExpandField specials params dflt val (CHR ''*'' # p) = ([], Inl IndexError)"
  using assms
  by (auto simp: ExpandField_def startswith_def dict_getitem_def GetValue_def bind_def ret_def
      raise_def Let_def)

theorem star_indirection_unset_param_raises_witness:
  "map_of test_specials ''_params'' = Some (VDict [])
   \<and> map_of ([] :: (string \<times> pyval) list) ''uid'' = None
   \<and> ''uid'' \<noteq> ''_this''
   \<and> ExpandField test_specials (VDict []) (VStr []) (VDict [(''u1'', VStr ''hello'')]) ''*uid''
        = ([], Inl IndexError)
   \<and> ExpandTemplate test_env 0 ''{{_db.*uid}}'' test_specials (VDict []) []
        = ([], Inl IndexError)"
proof -
  have a: "map_of test_specials ''_params'' = Some (VDict [])"
    by (simp add: test_specials_def)
  have b: "map_of ([] :: (string \<times> pyval) list) ''uid'' = None
      \<or> map_of ([] :: (string \<times> pyval) list) ''uid'' = Some (VList [])
      \<or> map_of ([] :: (string \<times> pyval) list) ''uid'' = Some (VStr [])"
    by simp
  have c: "''uid'' \<noteq> ''_this''"
    by simp
  have d: "ExpandTemplate test_env 0 ''{{_db.*uid}}'' test_specials (VDict []) []
        = ([], Inl IndexError)"
    by code_simp
  show ?thesis
    using star_indirection_unset_param_raises [OF a b c, of "VDict []" "VStr []"
        "VDict [(''u1'', VStr ''hello'')]"] a d
    by simp
qed

lemma ExpandVariable_not_None:
  "ExpandVariable E var specials params name \<noteq> (es, Inr VNone)"
  by (auto simp: ExpandVariable_def Let_def bind_def ret_def raise_def
      split: prod.splits sum.splits if_splits)

lemma mapM_list_getitem:
  "mapM (\<lambda>i. bind (list_getitem xs i) (f i)) [0..<length xs]
     = mapM (\<lambda>i. f i (xs ! i)) [0..<length xs]"
  by (rule mapM_cong) (simp_all add: list_getitem_def bind_ret)

subsection \<open>Iteration\<close>

text \<open>
  C5, as stated, fails: a \<^verbatim>\<open>for\<close> block whose argument resolves to a string is expanded
  once for each character and logs nothing, and one whose argument is \<^verbatim>\<open>None\<close> gives
  the empty string and logs nothing.
\<close>

theorem for_over_string_counterexample:
  "ExpandBlock test_env 0 ''for:s'' ''x'' [] (VDict [(''s'', VStr ''ab'')]) [] = ([], Inr ''xx'')
   \<and> ExpandBlock test_env 0 ''for:s'' ''x'' [] (VDict [(''s'', VNone)]) [] = ([], Inr [])
   \<and> ExpandTemplate test_env 0 ''[[for:s]]{{_key}}{{_this}}[[/for:s]]'' []
        (VDict [(''s'', VStr ''ab'')]) [] = ([], Inr ''0a1b'')"
  by code_simp

text \<open>
  C5, amended: a \<^verbatim>\<open>for\<close> block whose argument resolves to a value that is neither a
  Mapping nor a Sequence (a boolean or a number) contributes the empty string and logs
  \<^verbatim>\<open>Error: Invalid type:\<close> with the tag. The argument never resolves to \<^verbatim>\<open>None\<close>
  (\<^verbatim>\<open>_ExpandVariable\<close> replaces it by the empty string), and a string is a Sequence:
  the body is expanded once for each of its characters, in order, with params bound to
  the character and name to its index.
\<close>

theorem for_over_non_collection:
  assumes "ExpandVariable E expr specials params name = (es, Inr v)"
  shows "(\<not> is_Mapping v \<and> \<not> is_Sequence v \<longrightarrow>
            ExpandBlock E fuel (''for:'' @ expr) body specials params name
              = (es @ [Log (''Error: Invalid type: for:'' @ expr)], Inr []))
       \<and> v \<noteq> VNone
       \<and> (v = VStr s \<longrightarrow>
            ExpandBlock E fuel (''for:'' @ expr) body specials params name
              = bind (es, Inr ())
                  (\<lambda>_. bind (mapM (\<lambda>i. ExpandTemplate E fuel body specials (VStr [s ! i])
                                      (str_int (int i))) [0..<length s])
                         (\<lambda>result. ret (concat result))))"
proof -
  have blk: "ExpandBlock E fuel (''for:'' @ expr) body specials params name
      = bind (es, Inr ()) (\<lambda>_. ExpandFor E fuel (''for:'' @ expr) body specials v)"
    using assms
    by (simp add: ExpandBlock.simps for_tag_split INCLUDE_TAG_def IF_TAG_def FOR_TAG_def
        bind_def del: append.simps)
  have a: "ExpandBlock E fuel (''for:'' @ expr) body specials params name
              = (es @ [Log (''Error: Invalid type: for:'' @ expr)], Inr [])"
    if "\<not> is_Mapping v" "\<not> is_Sequence v"
    using that unfolding blk
    by (cases v) (simp_all add: ExpandFor.simps bind_def emit_def ret_def)
  have b: "v \<noteq> VNone"
    using assms ExpandVariable_not_None by blast
  have c: "ExpandBlock E fuel (''for:'' @ expr) body specials params name
              = bind (es, Inr ())
                  (\<lambda>_. bind (mapM (\<lambda>i. ExpandTemplate E fuel body specials (VStr [s ! i])
                                      (str_int (int i))) [0..<length s])
                         (\<lambda>result. ret (concat result)))"
    if "v = VStr s"
    unfolding blk that
    by (simp add: ExpandFor.simps mapM_list_getitem)
  show ?thesis
    using a b c by blast
qed

theorem for_over_non_collection_witness:
  "ExpandVariable test_env ''!n'' [] (VDict [(''n'', VInt 3)]) [] = ([], Inr (VBool False))
   \<and> \<not> is_Mapping (VBool False) \<and> \<not> is_Sequence (VBool False)
   \<and> ExpandBlock test_env 0 ''for:!n'' ''x'' [] (VDict [(''n'', VInt 3)]) []
        = ([Log ''Error: Invalid type: for:!n''], Inr [])"
proof -
  have a: "ExpandVariable test_env ''!n'' [] (VDict [(''n'', VInt 3)]) []
      = ([], Inr (VBool False))"
    by code_simp
  show ?thesis
    using for_over_non_collection [OF a, of 0 "''x''" "[]"] a by simp
qed


lemma mapM_keys_as_items:
  assumes "distinct (map fst kvs)" and "set items \<subseteq> set kvs"
  shows "mapM (\<lambda>k. bind (dict_getitem kvs k) (\<lambda>p. f p k)) (map fst items)
       = mapM (\<lambda>(k, v). f v k) items"
  using assms(2)
proof (induction items)
  case Nil
  show ?case by simp
next
  case (Cons kv items)
  obtain k v where kv: "kv = (k, v)" by (cases kv)
  with Cons.prems have "(k, v) \<in> set kvs" by simp
  with assms(1) have "map_of kvs k = Some v" by simp
  then have "dict_getitem kvs k = ret v" by (simp add: dict_getitem_def)
  with Cons kv show ?case by (simp add: bind_ret)
qed

text \<open>
  C8: a \<^verbatim>\<open>for\<close> block whose argument resolves to a dict contributes the concatenation,
  over the keys in the dict's order, of the full expansion of the body with params bound
  to the value of the key and name bound to the key; in the body \<^verbatim>\<open>_key\<close> is the name and
  \<^verbatim>\<open>_this\<close> the params. In particular \<^verbatim>\<open>[[for:m]]{{_key}}={{_this}}|[[/for:m]]\<close> over
  \<^verbatim>\<open>{"x": 1, "y": 2}\<close> gives \<^verbatim>\<open>x=1|y=2|\<close>.
\<close>

theorem for_over_mapping:
  assumes "ExpandVariable E expr specials params name = (es, Inr (VDict kvs))"
    and "distinct (map fst kvs)"
  shows "ExpandBlock E fuel (''for:'' @ expr) body specials params name
           = bind (es, Inr ())
               (\<lambda>_. bind (mapM (\<lambda>(k, v). ExpandTemplate E fuel body specials v k) kvs)
                      (\<lambda>result. ret (concat result)))
       \<and> ExpandValue ''_key'' specials' params' name' dflt = ([], Inr (VStr name'))
       \<and> ExpandValue ''_this'' specials' params' name' dflt = ([], Inr params')
       \<and> ExpandTemplate E fuel ''[[for:m]]{{_key}}={{_this}}|[[/for:m]]'' []
            (VDict [(''m'', VDict [(''x'', VInt 1), (''y'', VInt 2)])]) []
           = ([], Inr ''x=1|y=2|'')"
proof -
  have blk: "ExpandBlock E fuel (''for:'' @ expr) body specials params name
      = bind (es, Inr ()) (\<lambda>_. ExpandFor E fuel (''for:'' @ expr) body specials (VDict kvs))"
    using assms(1)
    by (simp add: ExpandBlock.simps for_tag_split INCLUDE_TAG_def IF_TAG_def FOR_TAG_def
        bind_def del: append.simps)
  have loop: "ExpandFor E fuel (''for:'' @ expr) body specials (VDict kvs)
      = bind (mapM (\<lambda>(k, v). ExpandTemplate E fuel body specials v k) kvs)
          (\<lambda>result. ret (concat result))"
    using mapM_keys_as_items [OF assms(2), of kvs "\<lambda>p k. ExpandTemplate E fuel body specials p k"]
    by (simp add: ExpandFor.simps)
  have key: "ExpandValue ''_key'' specials' params' name' dflt = ([], Inr (VStr name'))"
    by (simp add: ExpandValue_def ret_def)
  have self: "ExpandValue ''_this'' specials' params' name' dflt = ([], Inr params')"
    by (simp add: ExpandValue_def ret_def)
  have ex: "ExpandTemplate E fuel ''[[for:m]]{{_key}}={{_this}}|[[/for:m]]'' []
            (VDict [(''m'', VDict [(''x'', VInt 1), (''y'', VInt 2)])]) []
           = ([], Inr ''x=1|y=2|'')"
    by code_simp
  show ?thesis
    unfolding blk loop using key self ex by simp
qed

theorem for_over_mapping_witness:
  "ExpandVariable test_env ''m'' [] (VDict [(''m'', VDict [(''x'', VInt 1), (''y'', VInt 2)])]) ''top''
     = ([], Inr (VDict [(''x'', VInt 1), (''y'', VInt 2)]))
   \<and> distinct (map fst [(''x'', VInt 1), (''y'', VInt 2)])
   \<and> ExpandBlock test_env 0 ''for:m'' ''{{_key}}={{_this}}|'' []
        (VDict [(''m'', VDict [(''x'', VInt 1), (''y'', VInt 2)])]) ''top''
       = ([], Inr ''x=1|y=2|'')"
proof -
  have a: "ExpandVariable test_env ''m'' []
      (VDict [(''m'', VDict [(''x'', VInt 1), (''y'', VInt 2)])]) ''top''
     = ([], Inr (VDict [(''x'', VInt 1), (''y'', VInt 2)]))"
    by code_simp
  have b: "distinct (map fst [(''x'', VInt 1), (''y'', VInt 2)])"
    by simp
  have c: "bind ([], Inr ())
       (\<lambda>_. bind (mapM (\<lambda>(k, v). ExpandTemplate test_env 0 ''{{_key}}={{_this}}|'' [] v k)
                     [(''x'', VInt 1), (''y'', VInt 2)])
              (\<lambda>result. ret (concat result)))
     = ([], Inr ''x=1|y=2|'')"
    by code_simp
  show ?thesis
    using for_over_mapping [OF a b, of 0 "''{{_key}}={{_this}}|''"] a c by simp
qed

subsection \<open>Included resources\<close>

lemma handles_after_append:
  "handles_after hs (es @ es') = handles_after (handles_after hs es) es'"
  by (induction es arbitrary: hs) simp_all

lemma released_bind:
  assumes "open_handles (fst m) = []"
    and "\<And>es x. m = (es, Inr x) \<Longrightarrow> open_handles (fst (f x)) = []"
  shows "open_handles (fst (bind m f)) = []"
proof (cases m)
  case (Pair es r)
  show ?thesis
  proof (cases r)
    case (Inl e)
    with Pair assms(1) show ?thesis by (simp add: bind_def)
  next
    case (Inr x)
    with Pair assms(1) assms(2) [of es x] show ?thesis
      by (cases "f x") (simp add: bind_def open_handles_def handles_after_append)
  qed
qed

lemma open_handles_Nil: "open_handles [] = []"
  by (simp add: open_handles_def)

lemma open_handles_include:
  "open_handles [Opened f, Closed f] = []"
  "open_handles [Log m] = []"
  "open_handles [Opened f, Log m, Closed f] = []"
  by (simp_all add: open_handles_def)

lemma fst_emit: "fst (emit es) = es"
  by (simp add: emit_def)

lemmas silent = fst_ret fst_raise fst_emit fst_ExpandVariable fst_dict_getitem
  open_handles_Nil open_handles_include

lemma released_mapM:
  "(\<And>x. x \<in> set xs \<Longrightarrow> open_handles (fst (f x)) = []) \<Longrightarrow> open_handles (fst (mapM f xs)) = []"
  by (induction xs) (auto intro!: released_bind simp: silent)

lemma fst_ExpandVariables_loop:
  "fst (ExpandVariables_loop E result rest specials params name) = []"
proof (induction E result rest specials params name rule: ExpandVariables_loop.induct)
  case (1 E result rest specials params name)
  show ?case
    by (subst ExpandVariables_loop.simps)
       (auto simp: fst_ret fst_ExpandVariable intro!: fst_bind_nil "1.IH" split: option.splits)
qed

lemma fst_ExpandVariables: "fst (ExpandVariables E t specials params name) = []"
  by (simp add: ExpandVariables_def fst_ExpandVariables_loop)

lemma handles_released:
  shows "open_handles (fst (ExpandTemplate E fuel template specials params name)) = []"
    and "open_handles (fst (ExpandBlocks E fuel template specials params name)) = []"
    and "open_handles (fst (ExpandBlocks_loop E fuel result rest specials params name)) = []"
    and "open_handles (fst (ExpandBlock E fuel tag template specials params name)) = []"
    and "open_handles (fst (ExpandInclude E fuel tag filename template specials params name)) = []"
    and "open_handles (fst (ExpandFor E fuel tag template specials block_data)) = []"
proof (induction E fuel template specials params name
    and E fuel template specials params name
    and E fuel result rest specials params name
    and E fuel tag template specials params name
    and E fuel tag filename template specials params name
    and E fuel tag template specials block_data
    rule: ExpandTemplate_ExpandBlocks_ExpandBlocks_loop_ExpandBlock_ExpandInclude_ExpandFor.induct)
  case (1 E fuel template specials params name)
  then show ?case
    by (subst ExpandTemplate.simps)
       (auto intro!: released_bind simp: fst_ExpandVariables silent)
next
  case (2 E fuel template specials params name)
  then show ?case by (simp add: ExpandBlocks.simps)
next
  case (3 E fuel result rest specials params name)
  show ?case
    by (subst ExpandBlocks_loop.simps)
       (auto intro!: released_bind "3.IH" simp: silent Let_def split: option.splits)
next
  case (4 E fuel tag template specials params name)
  show ?case
    by (subst ExpandBlock.simps)
       (auto intro!: released_bind "4.IH" simp: silent split: list.splits)
next
  case (5 E fuel tag filename template specials params name)
  show ?case
  proof (cases "gruyere_Open E (os_sep E @ py_replace CHR ''/'' (os_sep E) filename)")
    case OpenFails
    with "5.IH" show ?thesis
      by (subst ExpandInclude.simps) (auto intro!: released_bind simp: silent Let_def emit_def)
  next
    case ReadFails
    with "5.IH" show ?thesis
      by (subst ExpandInclude.simps) (auto intro!: released_bind simp: silent Let_def emit_def)
  next
    case (Content data)
    with "5.IH" show ?thesis
      by (subst ExpandInclude.simps)
         (auto intro!: released_bind simp: silent Let_def emit_def split: nat.splits)
  qed
next
  case (6 E fuel tag template specials block_data)
  show ?case
  proof (cases block_data)
    case (VDict kvs)
    with "6.IH" show ?thesis
      by (subst ExpandFor.simps)
         (auto intro!: released_bind released_mapM simp: silent dict_getitem_def ret_def
            raise_def split: option.splits)
  next
    case (VList xs)
    with "6.IH" show ?thesis
      by (subst ExpandFor.simps)
         (auto intro!: released_bind released_mapM simp: silent list_getitem_def ret_def
            raise_def)
  next
    case (VStr s)
    with "6.IH" show ?thesis
      by (subst ExpandFor.simps)
         (auto intro!: released_bind released_mapM simp: silent list_getitem_def ret_def
            raise_def)
  qed (auto simp: ExpandFor.simps silent intro!: released_bind)
qed


lemma bind_bind: "bind (bind m f) g = bind m (\<lambda>x. bind (f x) g)"
  by (auto simp: bind_def split: prod.splits sum.splits)


text \<open>
  C3: for an \<^verbatim>\<open>[[include:path]]\<close> block whose resource cannot be opened or read, the
  failure is logged (\<^verbatim>\<open>Error: missing filename:\<close> with the path), the body of the block
  is expanded in its place with the same specials, params and name (a full expansion by
  \<^verbatim>\<open>ExpandTemplate\<close>), and the result is spliced where the block stood, the block pass
  going on after the close tag; the failure raises nothing, so an exception can only
  come from expanding the body. A handle that was opened is closed before the body is
  expanded, and whatever an \<^verbatim>\<open>include\<close> block does, with a readable resource or not,
  returning or raising, no handle is left open after it.
\<close>

theorem include_unreadable_falls_back:
  assumes "FindTag rest BLOCK_OPEN BLOCK_CLOSE = Some (''include:'' @ path, before_tag, after_tag)"
    and "before_end = py_find rest (END_BLOCK_OPEN @ ''include:'' @ path @ BLOCK_CLOSE) after_tag"
    and "0 \<le> before_end"
    and "body = py_slice rest after_tag before_end"
    and "fname = os_sep E @ py_replace CHR ''/'' (os_sep E) path"
    and "gruyere_Open E fname = OpenFails \<or> gruyere_Open E fname = ReadFails"
    and "evs = (if gruyere_Open E fname = OpenFails
                then [Log (''Error: missing filename: '' @ path)]
                else [Opened fname, Log (''Error: missing filename: '' @ path), Closed fname])"
  shows "ExpandBlock E fuel (''include:'' @ path) body specials params name
           = bind (emit evs) (\<lambda>_. ExpandTemplate E fuel body specials params name)
       \<and> ExpandBlocks_loop E fuel result rest specials params name
           = bind (emit evs) (\<lambda>_.
               bind (ExpandTemplate E fuel body specials params name) (\<lambda>b.
                 ExpandBlocks_loop E fuel (result @ [slice_to rest before_tag, b])
                   (slice_from rest
                      (before_end + int (length (END_BLOCK_OPEN @ ''include:'' @ path @ BLOCK_CLOSE))))
                   specials params name))
       \<and> Log (''Error: missing filename: '' @ path) \<in> set evs
       \<and> open_handles evs = []
       \<and> open_handles (fst (ExpandInclude E' fuel' tag' path' body' specials' params' name')) = []"
proof -
  have blk: "ExpandBlock E fuel (''include:'' @ path) body specials params name
           = bind (emit evs) (\<lambda>_. ExpandTemplate E fuel body specials params name)"
    using assms(5-7)
    by (auto simp add: ExpandBlock.simps include_tag_split INCLUDE_TAG_def ExpandInclude.simps
        Let_def simp del: append.simps)
  have loop: "ExpandBlocks_loop E fuel result rest specials params name
           = bind (ExpandBlock E fuel (''include:'' @ path) body specials params name) (\<lambda>b.
                 ExpandBlocks_loop E fuel (result @ [slice_to rest before_tag, b])
                   (slice_from rest
                      (before_end + int (length (END_BLOCK_OPEN @ ''include:'' @ path @ BLOCK_CLOSE))))
                   specials params name)"
    using assms(1-4) FindTag_nonempty [OF assms(1)]
    by (subst ExpandBlocks_loop.simps) (simp add: Let_def del: append.simps)
  have evs: "Log (''Error: missing filename: '' @ path) \<in> set evs" "open_handles evs = []"
    using assms(7) by (simp_all add: open_handles_def)
  show ?thesis
    unfolding loop blk bind_bind using evs handles_released(5) by simp
qed


theorem include_unreadable_falls_back_witness:
  "FindTag ''a[[include:nofile]]fall{{x}}[[/include:nofile]]b'' BLOCK_OPEN BLOCK_CLOSE
     = Some (''include:nofile'', 1, 19)
   \<and> py_find ''a[[include:nofile]]fall{{x}}[[/include:nofile]]b''
       (END_BLOCK_OPEN @ ''include:nofile'' @ BLOCK_CLOSE) 19 = 28
   \<and> gruyere_Open test_env ''/nofile'' = OpenFails
   \<and> ExpandBlock test_env 0 ''include:nofile'' ''fall{{x}}'' [] (VDict [(''x'', VInt 1)]) []
       = ([Log ''Error: missing filename: nofile''], Inr ''fall1'')
   \<and> ExpandTemplate test_env 0 ''a[[include:nofile]]fall{{x}}[[/include:nofile]]b'' []
         (VDict [(''x'', VInt 1)]) []
       = ([Log ''Error: missing filename: nofile''], Inr ''afall1b'')
   \<and> ExpandTemplate test_env 0 ''a[[include:broken]]fall{{x}}[[/include:broken]]b'' []
         (VDict [(''x'', VInt 1)]) []
       = ([Opened ''/broken'', Log ''Error: missing filename: broken'', Closed ''/broken''],
          Inr ''afall1b'')
   \<and> ExpandTemplate test_env 1 ''a[[include:menu.gtl]]fall{{x}}[[/include:menu.gtl]]b'' []
         (VDict [(''name'', VStr ''Bob'')]) []
       = ([Opened ''/menu.gtl'', Closed ''/menu.gtl''], Inr ''aHi Bobb'')"
proof -
  have tag: "FindTag ''a[[include:nofile]]fall{{x}}[[/include:nofile]]b'' BLOCK_OPEN BLOCK_CLOSE
     = Some (''include:'' @ ''nofile'', 1, 19)"
    by code_simp
  have close: "28 = py_find ''a[[include:nofile]]fall{{x}}[[/include:nofile]]b''
       (END_BLOCK_OPEN @ ''include:'' @ ''nofile'' @ BLOCK_CLOSE) 19"
    by code_simp
  have body: "''fall{{x}}'' = py_slice ''a[[include:nofile]]fall{{x}}[[/include:nofile]]b'' 19 28"
    by code_simp
  have fname: "''/nofile'' = os_sep test_env @ py_replace CHR ''/'' (os_sep test_env) ''nofile''"
    by code_simp
  have fails: "gruyere_Open test_env ''/nofile'' = OpenFails"
    by code_simp
  have evs: "[Log ''Error: missing filename: nofile'']
      = (if gruyere_Open test_env ''/nofile'' = OpenFails
         then [Log (''Error: missing filename: '' @ ''nofile'')]
         else [Opened ''/nofile'', Log (''Error: missing filename: '' @ ''nofile''),
               Closed ''/nofile''])"
    by (simp add: fails)
  have fallback: "bind (emit [Log ''Error: missing filename: nofile''])
        (\<lambda>_. ExpandTemplate test_env 0 ''fall{{x}}'' [] (VDict [(''x'', VInt 1)]) [])
      = ([Log ''Error: missing filename: nofile''], Inr ''fall1'')"
    by code_simp
  have whole: "ExpandTemplate test_env 0 ''a[[include:nofile]]fall{{x}}[[/include:nofile]]b'' []
         (VDict [(''x'', VInt 1)]) []
       = ([Log ''Error: missing filename: nofile''], Inr ''afall1b'')"
    by code_simp
  have broken: "ExpandTemplate test_env 0 ''a[[include:broken]]fall{{x}}[[/include:broken]]b'' []
         (VDict [(''x'', VInt 1)]) []
       = ([Opened ''/broken'', Log ''Error: missing filename: broken'', Closed ''/broken''],
          Inr ''afall1b'')"
    by code_simp
  have menu: "ExpandTemplate test_env 1 ''a[[include:menu.gtl]]fall{{x}}[[/include:menu.gtl]]b'' []
         (VDict [(''name'', VStr ''Bob'')]) []
       = ([Opened ''/menu.gtl'', Closed ''/menu.gtl''], Inr ''aHi Bobb'')"
    by code_simp
  have "ExpandBlock test_env 0 (''include:'' @ ''nofile'') ''fall{{x}}'' []
      (VDict [(''x'', VInt 1)]) []
    = bind (emit [Log ''Error: missing filename: nofile''])
        (\<lambda>_. ExpandTemplate test_env 0 ''fall{{x}}'' [] (VDict [(''x'', VInt 1)]) [])"
    using include_unreadable_falls_back [OF tag close _ body fname _ evs, of 0 "[]"
        "VDict [(''x'', VInt 1)]" "[]" "[]"] fails
    by simp
  with fallback tag close fails whole broken menu show ?thesis
    by simp
qed

end
